theory Spec2Isabelle
  imports Complex_Main "HOL-Library.Sublist"
begin

section \<open>Data of package hckit (tracing.go)\<close>

text \<open>
  tracing.go is glue between net/http and an OpenTracing tracer. Its behaviour is the
  sequence of calls it makes on its collaborators (the logger, the tracer and its spans,
  the wrapped handler, the proxied transport, the jaeger configuration) together with
  what it hands back. The collaborators are not part of the package: what they answer is
  a parameter of every function below, and every call made on them is appended to a call
  list, oldest call first.
\<close>

subsection \<open>strings.Contains\<close>

text \<open>\<^verbatim>\<open>strings.Contains(s, substr)\<close>: does \<open>substr\<close> occur in \<open>s\<close>? Go strings are
  byte sequences, as \<^typ>\<open>string\<close> is.\<close>

fun Contains :: "string \<Rightarrow> string \<Rightarrow> bool" where
  "Contains [] substr = (substr = [])"
| "Contains (c # s) substr = (prefix substr (c # s) \<or> Contains s substr)"

subsection \<open>Requests, errors, panics\<close>

text \<open>\<^verbatim>\<open>http.Header\<close> is \<^verbatim>\<open>map[string][]string\<close>.\<close>

type_synonym header = "string \<rightharpoonup> string list"

text \<open>The fields of \<^verbatim>\<open>url.URL\<close> and \<^verbatim>\<open>http.Request\<close> that tracing.go reads or
  writes. \<^verbatim>\<open>r.URL\<close> is taken to be a URL (net/http never hands a handler or a transport
  a request without one), and \<^verbatim>\<open>r.Header\<close> a map.\<close>

record url =
  Path :: string

record request =
  Method :: string
  URL :: url
  Header :: header

text \<open>A Go \<^verbatim>\<open>error\<close> value, with the text its \<^verbatim>\<open>Error()\<close> method returns.\<close>

datatype error = Error (message: string)

datatype panic = NilPointerDereference | PanicValue string

datatype 'a outcome = Returns 'a | Panics panic

section \<open>Collaborators\<close>

subsection \<open>OpenTracing\<close>

text \<open>\<^verbatim>\<open>opentracing.BuiltinFormat\<close>.\<close>

datatype format = Binary | TextMap | HTTPHeaders

text \<open>The one \<^verbatim>\<open>StartSpanOption\<close> the package builds: \<^verbatim>\<open>ext.RPCServerOption(client)\<close>,
  whose argument may be nil. It marks the span as a server span and, when the argument
  is not nil, makes the span a child of it.\<close>

datatype 'c StartSpanOption = RPCServerOption "'c option"

text \<open>The tags the package sets, named as in package ext:
  \<^verbatim>\<open>ext.SpanKindRPCClient.Set(span)\<close>, \<^verbatim>\<open>ext.HTTPUrl.Set(span, v)\<close>,
  \<^verbatim>\<open>ext.HTTPMethod.Set(span, v)\<close>.\<close>

datatype tag = SpanKindRPCClient | HTTPUrl string | HTTPMethod string

text \<open>A span is named by the position, in the call list, of the \<open>StartSpan\<close> call that
  returned it.\<close>

type_synonym span = nat

subsection \<open>Jaeger configuration\<close>

text \<open>\<^verbatim>\<open>config.SamplerConfig\<close>, \<^verbatim>\<open>config.ReporterConfig\<close> and \<^verbatim>\<open>config.Configuration\<close>:
  the fields the package assigns, and some of those it leaves as loaded.
  \<^verbatim>\<open>Sampler\<close> and \<^verbatim>\<open>Reporter\<close> are pointers.\<close>

datatype sampler_type = SamplerTypeConst | SamplerTypeOther string

record SamplerConfig =
  Type :: sampler_type
  Param :: real

record ReporterConfig =
  QueueSize :: int
  LogSpans :: bool
  LocalAgentHostPort :: string

record Configuration =
  ServiceName :: string
  Disabled :: bool
  RPCMetrics :: bool
  Sampler :: "SamplerConfig option"
  Reporter :: "ReporterConfig option"

datatype logger = StdLogger | NullLogger

datatype metrics_factory = NullFactory

text \<open>The value \<^verbatim>\<open>zipkin.NewZipkinB3HTTPHeaderPropagator()\<close> returns.\<close>

datatype propagator = NewZipkinB3HTTPHeaderPropagator

text \<open>\<^verbatim>\<open>config.Option\<close>: the options the package passes.\<close>

datatype config_Option =
    Logger logger
  | Metrics metrics_factory
  | Injector format propagator
  | Extractor format propagator
  | ZipkinSharedRPCSpan bool

subsection \<open>Calls\<close>

text \<open>An argument of a \<^verbatim>\<open>log.Printf\<close> call.\<close>

datatype 'c arg = Str string | Err error | Ctx 'c

datatype 'c call =
    LogPrintf string "'c arg list"
  | LogPrint string
  | ConfigFromEnv
  | ConfigInitGlobalTracer Configuration string "config_Option list"
  | TracerExtract format header
  | TracerStartSpan string "'c StartSpanOption list"
  | SpanLogFields span "(string \<times> string) list"
  | SpanSetTag span tag
  | TracerInject 'c format header
  | SpanFinish span
  | NextServeHTTP request
  | ProxiedRoundTrip request

text \<open>
  The tracer \<^verbatim>\<open>opentracing.GlobalTracer()\<close> returns, as what it answers. An answer may
  depend on every call made so far. The tracer and its spans are taken not to panic.
  \<^item> \<open>Extract\<close>: the two results of \<^verbatim>\<open>tracer.Extract(format, carrier)\<close>, each possibly
    nil; the carrier is read, not written;
  \<^item> \<open>Context\<close>: what \<^verbatim>\<open>span.Context()\<close> returns;
  \<^item> \<open>Inject\<close>: the carrier after \<^verbatim>\<open>tracer.Inject(ctx, format, carrier)\<close>, which writes
    to the header map in place, and the error it returns.
\<close>

record 'c tracer =
  Extract :: "'c call list \<Rightarrow> format \<Rightarrow> header \<Rightarrow> 'c option \<times> error option"
  Context :: "'c call list \<Rightarrow> span \<Rightarrow> 'c"
  Inject :: "'c call list \<Rightarrow> 'c \<Rightarrow> format \<Rightarrow> header \<Rightarrow> header \<times> error option"

text \<open>
  The jaeger client, as what it answers: \<^verbatim>\<open>config.FromEnv()\<close> returns a
  \<^verbatim>\<open>*Configuration\<close> and an error, and \<^verbatim>\<open>cfg.InitGlobalTracer(service, options...)\<close>
  an \<^verbatim>\<open>io.Closer\<close> and an error.
\<close>

record 'k jaeger =
  FromEnv :: "Configuration option \<times> error option"
  cfgInitGlobalTracer :: "Configuration \<Rightarrow> string \<Rightarrow> config_Option list \<Rightarrow> 'k option \<times> error option"

text \<open>
  An \<^verbatim>\<open>http.Handler\<close>: \<^verbatim>\<open>ServeHTTP(w, r)\<close> works on the response writer and on the
  request it is given by pointer, and returns or panics. A \<^verbatim>\<open>nil\<close> handler is the one
  that panics at once and touches nothing.
\<close>

type_synonym 'w handler = "'w \<Rightarrow> request \<Rightarrow> 'w \<times> request \<times> panic option"

text \<open>
  An \<^verbatim>\<open>http.RoundTripper\<close>: \<^verbatim>\<open>RoundTrip(req)\<close> works on the network and on the request
  and returns a \<^verbatim>\<open>*http.Response\<close> and an error, or panics (as a \<^verbatim>\<open>nil\<close>
  \<^verbatim>\<open>Proxied\<close> field does).
\<close>

type_synonym ('n, 'res) transport =
  "'n \<Rightarrow> request \<Rightarrow> ('res option \<times> error option) outcome \<times> 'n \<times> request"

section \<open>The functions of tracing.go\<close>

definition InitGlobalTracer ::
  "'k jaeger \<Rightarrow> string \<Rightarrow> 'c call list \<Rightarrow> ('k option \<times> error option) outcome \<times> 'c call list" where
  "InitGlobalTracer jg service h =
    (case FromEnv jg of (cfg, err) \<Rightarrow>
      let h1 = h @ [ConfigFromEnv] in
      (case cfg of
        None \<Rightarrow> (Panics NilPointerDereference, h1)
      | Some c \<Rightarrow>
          let c1 = c\<lparr>Sampler := Some \<lparr>Type = SamplerTypeConst, Param = 1\<rparr>\<rparr> in
          (case Reporter c1 of
            None \<Rightarrow> (Panics NilPointerDereference, h1)
          | Some rc \<Rightarrow>
              let c2 = c1\<lparr>Reporter := Some (rc\<lparr>LogSpans := True\<rparr>)\<rparr>;
                  jLogger = StdLogger;
                  jMetricsFactory = NullFactory;
                  zipkinPropagator = NewZipkinB3HTTPHeaderPropagator;
                  options = [Logger jLogger, Metrics jMetricsFactory,
                             Injector HTTPHeaders zipkinPropagator,
                             Extractor HTTPHeaders zipkinPropagator,
                             ZipkinSharedRPCSpan True];
                  h2 = h1 @ [ConfigInitGlobalTracer c2 service options]
              in (case cfgInitGlobalTracer jg c2 service options of (closer, err') \<Rightarrow>
                   (case err' of
                      Some e \<Rightarrow>
                        (Returns (closer, Some e),
                         h2 @ [LogPrintf ''Could not initialize jaeger tracer: %s'' [Str (message e)]])
                    | None \<Rightarrow> (Returns (closer, None), h2))))))"

definition TracingMiddleware ::
  "'c tracer \<Rightarrow> 'w handler \<Rightarrow> 'w \<Rightarrow> request \<Rightarrow> 'c call list
     \<Rightarrow> ('w \<times> request \<times> panic option) \<times> 'c call list" where
  "TracingMiddleware tr next w r h =
    (if Contains (Path (URL r)) ''health'' then (next w r, h @ [NextServeHTTP r])
     else
       let h1 = h @ [LogPrintf ''INFO: TracingMiddleware beginning for %s---------------------------''
                       [Str (Path (URL r))]]
       in case Extract tr h1 HTTPHeaders (Header r) of (wireContext, err) \<Rightarrow>
       let h2 = h1 @ [TracerExtract HTTPHeaders (Header r)];
           h3 = (case err of
                   None \<Rightarrow> h2
                 | Some e \<Rightarrow> h2 @ [LogPrintf ''WARN: Extract failed, error recieved.\<newline>%v\<newline>'' [Err e]]);
           h4 = (case wireContext of
                   None \<Rightarrow> h3
                 | Some c \<Rightarrow> h3 @ [LogPrintf ''INFO: WireContext is %v'' [Ctx c]]);
           span = length h4;
           h5 = h4 @ [TracerStartSpan (Path (URL r)) [RPCServerOption wireContext]];
           h6 = h5 @ [SpanLogFields span [(''event'', Path (URL r)), (''value'', ''start'')]];
           h7 = h6 @ [NextServeHTTP r]
       in case next w r of (w', r', p) \<Rightarrow>
         (case p of
            Some v \<Rightarrow> ((w', r', Some v), h7 @ [SpanFinish span])
          | None \<Rightarrow>
              ((w', r', None),
               h7 @ [SpanLogFields span [(''event'', Path (URL r')), (''value'', ''finish'')],
                     LogPrint ''INFO: TracingMiddleware complete----------------------------------------------'',
                     SpanFinish span])))"

definition InjectHeaders :: "'c tracer \<Rightarrow> request \<Rightarrow> 'c call list \<Rightarrow> request \<times> 'c call list" where
  "InjectHeaders tr r h =
    (let span = length h;
         h1 = h @ [TracerStartSpan (Path (URL r)) []];
         h2 = h1 @ [LogPrintf ''INFO: span.Context is %v'' [Ctx (Context tr h1 span)]];
         h3 = h2 @ [SpanSetTag span SpanKindRPCClient,
                    SpanSetTag span (HTTPUrl (Path (URL r))),
                    SpanSetTag span (HTTPMethod (Method r))];
         ctx = Context tr h3 span;
         h4 = h3 @ [TracerInject ctx HTTPHeaders (Header r)]
     in case Inject tr h3 ctx HTTPHeaders (Header r) of (carrier, err) \<Rightarrow>
          (r\<lparr>Header := carrier\<rparr>, h4 @ [SpanFinish span]))"

definition RoundTrip ::
  "'c tracer \<Rightarrow> ('n, 'res) transport \<Rightarrow> 'n \<Rightarrow> request \<Rightarrow> 'c call list
     \<Rightarrow> (('res option \<times> error option) outcome \<times> 'n \<times> request) \<times> 'c call list" where
  "RoundTrip tr Proxied n req h =
    (let h1 = h @ [LogPrint ''INFO: TracingRoundTripper.RountTrip injecting headers'']
     in case InjectHeaders tr req h1 of (req', h2) \<Rightarrow>
          (Proxied n req', h2 @ [ProxiedRoundTrip req']))"

section \<open>Reading a call list\<close>

text \<open>The spans started by a call list, oldest first: the operation name and the
  options of every \<open>StartSpan\<close> call.\<close>

fun started :: "'c call list \<Rightarrow> (string \<times> 'c StartSpanOption list) list" where
  "started [] = []"
| "started (TracerStartSpan name opts # cs) = (name, opts) # started cs"
| "started (_ # cs) = started cs"

text \<open>The spans finished by a call list, oldest first.\<close>

fun finished :: "'c call list \<Rightarrow> span list" where
  "finished [] = []"
| "finished (SpanFinish s # cs) = s # finished cs"
| "finished (_ # cs) = finished cs"

text \<open>The requests handed to the wrapped handler, and to the proxied transport.\<close>

fun served :: "'c call list \<Rightarrow> request list" where
  "served [] = []"
| "served (NextServeHTTP r # cs) = r # served cs"
| "served (_ # cs) = served cs"

fun proxied :: "'c call list \<Rightarrow> request list" where
  "proxied [] = []"
| "proxied (ProxiedRoundTrip r # cs) = r # proxied cs"
| "proxied (_ # cs) = proxied cs"

text \<open>The tracers installed: the arguments of every \<^verbatim>\<open>cfg.InitGlobalTracer\<close> call.\<close>

fun installed :: "'c call list \<Rightarrow> (Configuration \<times> string \<times> config_Option list) list" where
  "installed [] = []"
| "installed (ConfigInitGlobalTracer c s os # cs) = (c, s, os) # installed cs"
| "installed (_ # cs) = installed cs"

text \<open>Calls on the logger, the tracer and its spans: the trace data a function emits.\<close>

fun tracing :: "'c call \<Rightarrow> bool" where
  "tracing (LogPrintf f as) = True"
| "tracing (LogPrint s) = True"
| "tracing (TracerExtract f c) = True"
| "tracing (TracerStartSpan name opts) = True"
| "tracing (SpanLogFields s fs) = True"
| "tracing (SpanSetTag s t) = True"
| "tracing (TracerInject c f cr) = True"
| "tracing (SpanFinish s) = True"
| "tracing _ = False"

text \<open>The contexts a list of start options names as parent: \<^verbatim>\<open>ext.RPCServerOption\<close>
  adds a \<^verbatim>\<open>ChildOf\<close> reference when its argument is not nil. A span started with no
  parent is a root span.\<close>

fun parents :: "'c StartSpanOption list \<Rightarrow> 'c list" where
  "parents [] = []"
| "parents (RPCServerOption None # os) = parents os"
| "parents (RPCServerOption (Some c) # os) = c # parents os"

section \<open>Example collaborators and requests\<close>

text \<open>A tracer whose contexts are numbers: it finds context 7 in a carrier that has an
  \<open>X-B3-Traceid\<close> entry and fails on any other; a span's context is its position plus one; and
  injection writes an \<open>X-B3-Traceid\<close> entry.\<close>

definition exampleTracer :: "nat tracer" where
  "exampleTracer =
    \<lparr>Extract = (\<lambda>h f carrier.
        case carrier ''X-B3-Traceid'' of
          None \<Rightarrow> (None, Some (Error ''opentracing: SpanContext not found in Extract carrier''))
        | Some v \<Rightarrow> (Some 7, None)),
     Context = (\<lambda>h s. Suc s),
     Inject = (\<lambda>h c f carrier. (carrier(''X-B3-Traceid'' \<mapsto> [replicate c CHR ''1'']), None))\<rparr>"

text \<open>Handlers on a response writer that holds a status code and a body.\<close>

definition okHandler :: "(nat \<times> string) handler" where
  "okHandler w r = ((200, snd w @ ''ok''), r, None)"

definition errorHandler :: "(nat \<times> string) handler" where
  "errorHandler w r = ((500, snd w @ ''internal error''), r, None)"

definition panickingHandler :: "(nat \<times> string) handler" where
  "panickingHandler w r = ((fst w, snd w @ ''partial''), r, Some (PanicValue ''boom''))"

definition healthRequest :: request where
  "healthRequest = \<lparr>Method = ''GET'', URL = \<lparr>Path = ''/health/live''\<rparr>, Header = Map.empty\<rparr>"

definition ordersRequest :: request where
  "ordersRequest = \<lparr>Method = ''GET'', URL = \<lparr>Path = ''/orders/42''\<rparr>, Header = Map.empty\<rparr>"

definition paymentsRequest :: request where
  "paymentsRequest =
     \<lparr>Method = ''POST'', URL = \<lparr>Path = ''/payments/charge''\<rparr>, Header = Map.empty\<rparr>"

text \<open>A transport on a network that counts the requests sent.\<close>

definition countingTransport :: "(nat, string) transport" where
  "countingTransport n req = (Returns (Some ''response'', None), Suc n, req)"

text \<open>A jaeger client whose environment has \<open>JAEGER_RPC_METRICS=maybe\<close>:
  \<^verbatim>\<open>config.FromEnv()\<close> returns no configuration and an error.\<close>

definition brokenEnv :: "unit jaeger" where
  "brokenEnv =
    \<lparr>FromEnv = (None, Some (Error ''cannot parse env var JAEGER_RPC_METRICS=maybe'')),
     cfgInitGlobalTracer = (\<lambda>c s os. (Some (), None))\<rparr>"

text \<open>A jaeger client whose environment asks for probabilistic sampling at 0.001.\<close>

definition loadedConfiguration :: Configuration where
  "loadedConfiguration =
    \<lparr>ServiceName = [], Disabled = False, RPCMetrics = False,
     Sampler = Some \<lparr>Type = SamplerTypeOther ''probabilistic'', Param = 1 / 1000\<rparr>,
     Reporter = Some \<lparr>QueueSize = 0, LogSpans = False, LocalAgentHostPort = ''localhost:6831''\<rparr>\<rparr>"

definition workingEnv :: "unit jaeger" where
  "workingEnv =
    \<lparr>FromEnv = (Some loadedConfiguration, None),
     cfgInitGlobalTracer = (\<lambda>c s os. (Some (), None))\<rparr>"

section \<open>Properties\<close>

subsection \<open>Call lists\<close>

lemma started_append: "started (xs @ ys) = started xs @ started ys"
  by (induction xs rule: started.induct) simp_all

lemma finished_append: "finished (xs @ ys) = finished xs @ finished ys"
  by (induction xs rule: finished.induct) simp_all

lemma served_append: "served (xs @ ys) = served xs @ served ys"
  by (induction xs rule: served.induct) simp_all

lemma proxied_append: "proxied (xs @ ys) = proxied xs @ proxied ys"
  by (induction xs rule: proxied.induct) simp_all

text \<open>\<open>Contains\<close> is the substring test.\<close>

lemma Contains_sublist: "Contains s substr \<longleftrightarrow> sublist substr s"
  by (induction s) (simp_all add: sublist_Cons_right)

lemma Contains_iff: "Contains s substr \<longleftrightarrow> (\<exists>p q. s = p @ substr @ q)"
  by (simp add: Contains_sublist sublist_def)

subsection \<open>What each function calls\<close>

text \<open>Off the health path, the middleware's calls are: logger and tracer calls that start
  no span, then \<open>StartSpan\<close>, the start fields, the wrapped handler, on return the finish
  fields and a log line, and at last \<open>Finish\<close> on the span that was started.\<close>

lemma TracingMiddleware_calls:
  assumes "\<not> Contains (Path (URL r)) ''health''"
  shows "\<exists>pre post wc.
      snd (TracingMiddleware tr next w r (h :: 'c call list)) =
        h @ pre @ [TracerStartSpan (Path (URL r)) [RPCServerOption wc],
                   SpanLogFields (length h + length pre) [(''event'', Path (URL r)), (''value'', ''start'')],
                   NextServeHTTP r] @ post @ [SpanFinish (length h + length pre)]
    \<and> started pre = [] \<and> finished pre = [] \<and> served pre = [] \<and> filter (\<lambda>c. \<not> tracing c) pre = []
    \<and> started post = [] \<and> finished post = [] \<and> served post = [] \<and> filter (\<lambda>c. \<not> tracing c) post = []"
proof -
  define h1 where "h1 = h @ [LogPrintf ''INFO: TracingMiddleware beginning for %s---------------------------'' [Str (Path (URL r))]]"
  obtain wc err where e: "Extract tr h1 HTTPHeaders (Header r) = (wc, err)"
    by (cases "Extract tr h1 HTTPHeaders (Header r)")
  obtain w' r' p where n: "next w r = (w', r', p)"
    by (cases "next w r")
  define pre :: "'c call list" where "pre =
    [LogPrintf ''INFO: TracingMiddleware beginning for %s---------------------------'' [Str (Path (URL r))],
     TracerExtract HTTPHeaders (Header r)]
    @ (case err of None \<Rightarrow> [] | Some e \<Rightarrow> [LogPrintf ''WARN: Extract failed, error recieved.\<newline>%v\<newline>'' [Err e]])
    @ (case wc of None \<Rightarrow> [] | Some c \<Rightarrow> [LogPrintf ''INFO: WireContext is %v'' [Ctx c]])"
  define post :: "'c call list" where "post =
    (case p of Some v \<Rightarrow> []
     | None \<Rightarrow> [SpanLogFields (length h + length pre) [(''event'', Path (URL r')), (''value'', ''finish'')],
                LogPrint ''INFO: TracingMiddleware complete----------------------------------------------''])"
  have "snd (TracingMiddleware tr next w r h) =
        h @ pre @ [TracerStartSpan (Path (URL r)) [RPCServerOption wc],
                   SpanLogFields (length h + length pre) [(''event'', Path (URL r)), (''value'', ''start'')],
                   NextServeHTTP r] @ post @ [SpanFinish (length h + length pre)]"
    using assms e n
    by (simp add: TracingMiddleware_def Let_def h1_def pre_def post_def split: option.splits)
  moreover have "started pre = [] \<and> finished pre = [] \<and> served pre = [] \<and> filter (\<lambda>c. \<not> tracing c) pre = []"
    by (simp add: pre_def split: option.splits)
  moreover have "started post = [] \<and> finished post = [] \<and> served post = [] \<and> filter (\<lambda>c. \<not> tracing c) post = []"
    by (simp add: post_def split: option.splits)
  ultimately show ?thesis by blast
qed

text \<open>What the middleware hands back is what the wrapped handler hands back, on the
  writer and the request it was given.\<close>

lemma TracingMiddleware_result:
  "fst (TracingMiddleware tr next w r h) = next w r"
  by (simp add: TracingMiddleware_def Let_def split: option.splits prod.splits)

text \<open>The seven calls of \<open>InjectHeaders\<close>.\<close>

lemma InjectHeaders_calls:
  "\<exists>ctx0 ctx.
     snd (InjectHeaders tr r h) =
       h @ [TracerStartSpan (Path (URL r)) [],
            LogPrintf ''INFO: span.Context is %v'' [Ctx ctx0],
            SpanSetTag (length h) SpanKindRPCClient,
            SpanSetTag (length h) (HTTPUrl (Path (URL r))),
            SpanSetTag (length h) (HTTPMethod (Method r)),
            TracerInject ctx HTTPHeaders (Header r),
            SpanFinish (length h)]"
  by (simp add: InjectHeaders_def Let_def split: prod.splits)

subsection \<open>Inbound middleware\<close>

text \<open>
  C1. For every request whose URL path contains the substring \<open>health\<close>, the
  middleware calls the wrapped handler, with the writer and the request it was given, and
  makes no other call: no span is started, nothing is logged, and what comes back is
  what the handler returns when called unwrapped.
\<close>

theorem TracingMiddleware_health_bypass:
  assumes "Path (URL r) = p @ ''health'' @ q"
  shows "TracingMiddleware tr next w r h = (next w r, h @ [NextServeHTTP r])
       \<and> started (snd (TracingMiddleware tr next w r h)) = started h
       \<and> filter tracing (snd (TracingMiddleware tr next w r h)) = filter tracing h"
proof -
  from assms have "Contains (Path (URL r)) ''health''"
    unfolding Contains_iff by blast
  then show ?thesis
    by (simp add: TracingMiddleware_def started_append)
qed

theorem TracingMiddleware_health_bypass_witness:
  "Path (URL healthRequest) = ''/'' @ ''health'' @ ''/live''
   \<and> TracingMiddleware exampleTracer okHandler (0, []) healthRequest []
       = (((200, ''ok''), healthRequest, None), [NextServeHTTP healthRequest])
   \<and> started (snd (TracingMiddleware exampleTracer okHandler (0, []) healthRequest [])) = []"
proof -
  have p: "Path (URL healthRequest) = ''/'' @ ''health'' @ ''/live''"
    by (simp add: healthRequest_def)
  from TracingMiddleware_health_bypass [OF p, of exampleTracer okHandler "(0, [])" "[]"]
  show ?thesis
    using p by (simp add: okHandler_def)
qed

text \<open>
  C2. For every request whose URL path does not contain \<open>health\<close>, and for every
  wrapped handler (one that returns, whatever it writes, or one that panics), the calls
  the middleware adds start exactly one span, named after the path, and finish exactly
  one span, the one started; \<open>Finish\<close> is the last call made.
\<close>

theorem TracingMiddleware_one_span:
  assumes "\<not> sublist ''health'' (Path (URL r))"
  shows "\<exists>new sp. snd (TracingMiddleware tr next w r h) = h @ new
       \<and> length (started new) = 1
       \<and> length h \<le> sp \<and> sp < length (h @ new)
       \<and> (\<exists>opts. (h @ new) ! sp = TracerStartSpan (Path (URL r)) opts)
       \<and> finished new = [sp]
       \<and> last new = SpanFinish sp"
proof -
  from assms have "\<not> Contains (Path (URL r)) ''health''"
    by (simp add: Contains_sublist)
  from TracingMiddleware_calls [OF this, of tr "next" w h]
  obtain pre post wc where
    c: "snd (TracingMiddleware tr next w r h) =
        h @ pre @ [TracerStartSpan (Path (URL r)) [RPCServerOption wc],
                   SpanLogFields (length h + length pre) [(''event'', Path (URL r)), (''value'', ''start'')],
                   NextServeHTTP r] @ post @ [SpanFinish (length h + length pre)]"
    and pre: "started pre = []" "finished pre = []"
    and post: "started post = []" "finished post = []"
    by blast
  let ?sp = "length h + length pre"
  let ?new = "pre @ [TracerStartSpan (Path (URL r)) [RPCServerOption wc],
                   SpanLogFields ?sp [(''event'', Path (URL r)), (''value'', ''start'')],
                   NextServeHTTP r] @ post @ [SpanFinish ?sp]"
  have 1: "snd (TracingMiddleware tr next w r h) = h @ ?new"
    using c by simp
  have 2: "length (started ?new) = 1"
    by (simp add: started_append pre post)
  have 3: "length h \<le> ?sp \<and> ?sp < length (h @ ?new)"
    by simp
  have 4: "(h @ ?new) ! ?sp = TracerStartSpan (Path (URL r)) [RPCServerOption wc]"
    by (simp add: nth_append)
  have 5: "finished ?new = [?sp]"
    by (simp add: finished_append pre post)
  have 6: "last ?new = SpanFinish ?sp"
    by simp
  from 1 2 3 4 5 6 show ?thesis by blast
qed

theorem TracingMiddleware_one_span_witness:
  "\<not> sublist ''health'' (Path (URL ordersRequest))
   \<and> (\<exists>new sp. snd (TracingMiddleware exampleTracer panickingHandler (0, []) ordersRequest []) = [] @ new
       \<and> length (started new) = 1
       \<and> length ([] :: nat call list) \<le> sp \<and> sp < length ([] @ new)
       \<and> (\<exists>opts. ([] @ new) ! sp = TracerStartSpan (Path (URL ordersRequest)) opts)
       \<and> finished new = [sp]
       \<and> last new = SpanFinish sp)
   \<and> snd (snd (fst (TracingMiddleware exampleTracer panickingHandler (0, []) ordersRequest [])))
       = Some (PanicValue ''boom'')"
proof -
  have p: "\<not> sublist ''health'' (Path (URL ordersRequest))"
    by (simp add: ordersRequest_def flip: Contains_sublist)
  have "snd (snd (fst (TracingMiddleware exampleTracer panickingHandler (0, []) ordersRequest [])))
       = Some (PanicValue ''boom'')"
    by (simp add: TracingMiddleware_result panickingHandler_def)
  with p TracingMiddleware_one_span [OF p, of exampleTracer panickingHandler "(0, [])" "[]"]
  show ?thesis by blast
qed

text \<open>
  C4. For every request off the health path, when \<open>Extract\<close> on the request headers
  fails (an error and no context, as the Tracer interface returns on failure), the error
  is logged, the span is started with \<open>RPCServerOption\<close> of no context, which names no
  parent, the wrapped handler is called once, and the outcome of the middleware is the
  outcome of the handler: the middleware adds no error of its own.
\<close>

theorem TracingMiddleware_extract_failure:
  assumes "\<not> sublist ''health'' (Path (URL r))"
    and "Extract tr
           (h @ [LogPrintf ''INFO: TracingMiddleware beginning for %s---------------------------''
                   [Str (Path (URL r))]])
           HTTPHeaders (Header r) = (None, Some e)"
  shows "fst (TracingMiddleware tr next w r h) = next w r
       \<and> (\<exists>rest. snd (TracingMiddleware tr next w r h) =
            h @ [LogPrintf ''INFO: TracingMiddleware beginning for %s---------------------------''
                   [Str (Path (URL r))],
                 TracerExtract HTTPHeaders (Header r),
                 LogPrintf ''WARN: Extract failed, error recieved.\<newline>%v\<newline>'' [Err e],
                 TracerStartSpan (Path (URL r)) [RPCServerOption None],
                 SpanLogFields (length h + 3) [(''event'', Path (URL r)), (''value'', ''start'')],
                 NextServeHTTP r] @ rest
          \<and> started rest = [] \<and> served rest = [])
       \<and> parents [RPCServerOption None :: 'c StartSpanOption] = []"
proof -
  from assms(1) have nh: "\<not> Contains (Path (URL r)) ''health''"
    by (simp add: Contains_sublist)
  obtain w' r' p where n: "next w r = (w', r', p)"
    by (cases "next w r")
  have "\<exists>rest. snd (TracingMiddleware tr next w r h) =
            h @ [LogPrintf ''INFO: TracingMiddleware beginning for %s---------------------------''
                   [Str (Path (URL r))],
                 TracerExtract HTTPHeaders (Header r),
                 LogPrintf ''WARN: Extract failed, error recieved.\<newline>%v\<newline>'' [Err e],
                 TracerStartSpan (Path (URL r)) [RPCServerOption None],
                 SpanLogFields (length h + 3) [(''event'', Path (URL r)), (''value'', ''start'')],
                 NextServeHTTP r] @ rest
          \<and> started rest = [] \<and> served rest = []"
    using nh assms(2) n
    by (cases p) (simp_all add: TracingMiddleware_def Let_def)
  then show ?thesis
    by (simp add: TracingMiddleware_result)
qed

theorem TracingMiddleware_extract_failure_witness:
  "\<not> sublist ''health'' (Path (URL ordersRequest))
   \<and> Extract exampleTracer
        ([] @ [LogPrintf ''INFO: TracingMiddleware beginning for %s---------------------------''
                   [Str (Path (URL ordersRequest))]])
        HTTPHeaders (Header ordersRequest)
       = (None, Some (Error ''opentracing: SpanContext not found in Extract carrier''))
   \<and> TracingMiddleware exampleTracer okHandler (0, []) ordersRequest [] =
       (((200, ''ok''), ordersRequest, None),
        [LogPrintf ''INFO: TracingMiddleware beginning for %s---------------------------''
           [Str ''/orders/42''],
         TracerExtract HTTPHeaders Map.empty,
         LogPrintf ''WARN: Extract failed, error recieved.\<newline>%v\<newline>''
           [Err (Error ''opentracing: SpanContext not found in Extract carrier'')],
         TracerStartSpan ''/orders/42'' [RPCServerOption None],
         SpanLogFields 3 [(''event'', ''/orders/42''), (''value'', ''start'')],
         NextServeHTTP ordersRequest,
         SpanLogFields 3 [(''event'', ''/orders/42''), (''value'', ''finish'')],
         LogPrint ''INFO: TracingMiddleware complete----------------------------------------------'',
         SpanFinish 3])"
proof -
  have p: "\<not> sublist ''health'' (Path (URL ordersRequest))"
    by (simp add: ordersRequest_def flip: Contains_sublist)
  have q: "Extract exampleTracer
        ([] @ [LogPrintf ''INFO: TracingMiddleware beginning for %s---------------------------''
                   [Str (Path (URL ordersRequest))]])
        HTTPHeaders (Header ordersRequest)
       = (None, Some (Error ''opentracing: SpanContext not found in Extract carrier''))"
    by (simp add: exampleTracer_def ordersRequest_def)
  from TracingMiddleware_extract_failure [OF p q, of okHandler "(0, [])"]
  obtain rest where
    a: "fst (TracingMiddleware exampleTracer okHandler (0, []) ordersRequest []) = okHandler (0, []) ordersRequest"
    and b: "snd (TracingMiddleware exampleTracer okHandler (0, []) ordersRequest []) =
        [] @ [LogPrintf ''INFO: TracingMiddleware beginning for %s---------------------------''
                   [Str (Path (URL ordersRequest))],
                 TracerExtract HTTPHeaders (Header ordersRequest),
                 LogPrintf ''WARN: Extract failed, error recieved.\<newline>%v\<newline>''
                   [Err (Error ''opentracing: SpanContext not found in Extract carrier'')],
                 TracerStartSpan (Path (URL ordersRequest)) [RPCServerOption None],
                 SpanLogFields (length ([] :: nat call list) + 3)
                   [(''event'', Path (URL ordersRequest)), (''value'', ''start'')],
                 NextServeHTTP ordersRequest] @ rest"
    by blast
  have c: "TracingMiddleware exampleTracer okHandler (0, []) ordersRequest [] =
       (((200, ''ok''), ordersRequest, None),
        [LogPrintf ''INFO: TracingMiddleware beginning for %s---------------------------''
           [Str ''/orders/42''],
         TracerExtract HTTPHeaders Map.empty,
         LogPrintf ''WARN: Extract failed, error recieved.\<newline>%v\<newline>''
           [Err (Error ''opentracing: SpanContext not found in Extract carrier'')],
         TracerStartSpan ''/orders/42'' [RPCServerOption None],
         SpanLogFields 3 [(''event'', ''/orders/42''), (''value'', ''start'')],
         NextServeHTTP ordersRequest,
         SpanLogFields 3 [(''event'', ''/orders/42''), (''value'', ''finish'')],
         LogPrint ''INFO: TracingMiddleware complete----------------------------------------------'',
         SpanFinish 3])"
    using a b
    by (auto simp add: TracingMiddleware_def Let_def exampleTracer_def okHandler_def
        ordersRequest_def numeral_3_eq_3)
  from p q c show ?thesis by blast
qed

text \<open>
  C9. For every request off the health path, the middleware hands back what the wrapped
  handler does on the writer and the request the middleware was given (its writes, its
  changes to the request, its panic if any), and among the calls the middleware adds, the
  only one that is not a call on the logger, the tracer or a span is the one call of the
  wrapped handler, with the request as given.
\<close>

theorem TracingMiddleware_transparent:
  assumes "\<not> sublist ''health'' (Path (URL r))"
  shows "fst (TracingMiddleware tr next w r h) = next w r
       \<and> (\<exists>new. snd (TracingMiddleware tr next w r h) = h @ new
            \<and> filter (\<lambda>c. \<not> tracing c) new = [NextServeHTTP r])"
proof -
  from assms have "\<not> Contains (Path (URL r)) ''health''"
    by (simp add: Contains_sublist)
  from TracingMiddleware_calls [OF this, of tr "next" w h]
  obtain pre post wc where
    c: "snd (TracingMiddleware tr next w r h) =
        h @ pre @ [TracerStartSpan (Path (URL r)) [RPCServerOption wc],
                   SpanLogFields (length h + length pre) [(''event'', Path (URL r)), (''value'', ''start'')],
                   NextServeHTTP r] @ post @ [SpanFinish (length h + length pre)]"
    and pre: "filter (\<lambda>c. \<not> tracing c) pre = []"
    and post: "filter (\<lambda>c. \<not> tracing c) post = []"
    by blast
  let ?new = "pre @ [TracerStartSpan (Path (URL r)) [RPCServerOption wc],
                   SpanLogFields (length h + length pre) [(''event'', Path (URL r)), (''value'', ''start'')],
                   NextServeHTTP r] @ post @ [SpanFinish (length h + length pre)]"
  have "snd (TracingMiddleware tr next w r h) = h @ ?new"
    using c by simp
  moreover have "filter (\<lambda>c. \<not> tracing c) ?new = [NextServeHTTP r]"
    using pre post by simp
  ultimately show ?thesis
    using TracingMiddleware_result [of tr "next" w r h] by blast
qed

theorem TracingMiddleware_transparent_witness:
  "\<not> sublist ''health'' (Path (URL ordersRequest))
   \<and> fst (TracingMiddleware exampleTracer errorHandler (0, []) ordersRequest [])
       = ((500, ''internal error''), ordersRequest, None)
   \<and> (\<exists>new. snd (TracingMiddleware exampleTracer errorHandler (0, []) ordersRequest []) = [] @ new
            \<and> filter (\<lambda>c. \<not> tracing c) new = [NextServeHTTP ordersRequest])"
proof -
  have p: "\<not> sublist ''health'' (Path (URL ordersRequest))"
    by (simp add: ordersRequest_def flip: Contains_sublist)
  from TracingMiddleware_transparent [OF p, of exampleTracer errorHandler "(0, [])" "[]"]
  show ?thesis
    using p by (simp add: errorHandler_def)
qed

subsection \<open>Outbound requests\<close>

text \<open>
  C5. For every tracer, transport, network state and request, \<open>RoundTrip\<close> logs a line,
  makes the calls of \<open>InjectHeaders\<close> on the request, and then calls the proxied
  transport once, on the request as injection left it; what it returns (response and
  error, or panic) is what that call of the transport returns.
\<close>

theorem RoundTrip_pass_through:
  "fst (RoundTrip tr Proxied n req h) =
     Proxied n (fst (InjectHeaders tr req
        (h @ [LogPrint ''INFO: TracingRoundTripper.RountTrip injecting headers''])))
   \<and> snd (RoundTrip tr Proxied n req h) =
       snd (InjectHeaders tr req
         (h @ [LogPrint ''INFO: TracingRoundTripper.RountTrip injecting headers'']))
       @ [ProxiedRoundTrip (fst (InjectHeaders tr req
            (h @ [LogPrint ''INFO: TracingRoundTripper.RountTrip injecting headers''])))]
   \<and> proxied (drop (length h) (snd (RoundTrip tr Proxied n req h))) =
       [fst (InjectHeaders tr req
          (h @ [LogPrint ''INFO: TracingRoundTripper.RountTrip injecting headers'']))]"
proof -
  let ?h1 = "h @ [LogPrint ''INFO: TracingRoundTripper.RountTrip injecting headers'']"
  obtain req' h2 where i: "InjectHeaders tr req ?h1 = (req', h2)"
    by (cases "InjectHeaders tr req ?h1")
  from InjectHeaders_calls [of tr req ?h1] i
  obtain cs where h2: "h2 = ?h1 @ cs" and cs: "proxied cs = []"
    by auto
  have r: "RoundTrip tr Proxied n req h = (Proxied n req', h2 @ [ProxiedRoundTrip req'])"
    by (simp add: RoundTrip_def Let_def i)
  have "proxied (drop (length h) (h2 @ [ProxiedRoundTrip req'])) = [req']"
    by (simp add: h2 cs proxied_append)
  with r i show ?thesis by simp
qed

text \<open>
  C6. For every outbound request, \<open>InjectHeaders\<close> starts one span named after the URL
  path, tags it with span kind client, with \<open>http.url\<close> set to the URL path (the only
  part of the URL the function reads) and with \<open>http.method\<close> set to the method,
  injects the context the span then reports into the request's header map with the
  \<open>HTTPHeaders\<close> format, and finishes the span as its last call. The request it leaves
  differs from the one given in the header map only. No call of a transport is among
  these calls.
\<close>

theorem InjectHeaders_client_span:
  "\<exists>ctx0 ctx carrier err cs.
     InjectHeaders tr r h = (r\<lparr>Header := carrier\<rparr>, cs)
   \<and> cs = h @ [TracerStartSpan (Path (URL r)) [],
               LogPrintf ''INFO: span.Context is %v'' [Ctx ctx0],
               SpanSetTag (length h) SpanKindRPCClient,
               SpanSetTag (length h) (HTTPUrl (Path (URL r))),
               SpanSetTag (length h) (HTTPMethod (Method r)),
               TracerInject ctx HTTPHeaders (Header r),
               SpanFinish (length h)]
   \<and> ctx = Context tr (take (length h + 5) cs) (length h)
   \<and> (carrier, err) = Inject tr (take (length h + 5) cs) ctx HTTPHeaders (Header r)"
  by (simp add: InjectHeaders_def Let_def split: prod.splits)

text \<open>
  C10. For every outbound request, whatever its headers carry, and after every call list,
  whatever spans it has started and not finished, the one span \<open>InjectHeaders\<close> starts
  is started with no option: it names no parent.
\<close>

theorem InjectHeaders_root_span:
  "\<exists>new. snd (InjectHeaders tr r h) = h @ new
     \<and> started new = [(Path (URL r), [])]
     \<and> map (\<lambda>s. parents (snd s)) (started new) = [[]]"
proof -
  from InjectHeaders_calls [of tr r h]
  obtain new where "snd (InjectHeaders tr r h) = h @ new" and "started new = [(Path (URL r), [])]"
    by auto
  then show ?thesis by auto
qed

subsection \<open>Tracer initialisation\<close>

text \<open>
  C7. Whenever \<^verbatim>\<open>config.FromEnv()\<close> returns a configuration (with its reporter section),
  whatever its sampler and whatever error comes with it, \<open>InitGlobalTracer\<close> installs
  the global tracer exactly once, from that configuration with the sampler replaced by
  the constant sampler with parameter 1 and \<open>LogSpans\<close> set, every other field as loaded,
  and with the one Zipkin B3 propagator as injector and as extractor of the \<open>HTTPHeaders\<close>
  format and \<open>ZipkinSharedRPCSpan\<close> set; it returns what that installation returns.
\<close>

theorem InitGlobalTracer_overrides:
  assumes "FromEnv jg = (Some c, e)" and "Reporter c = Some rc"
  shows "\<exists>c' opts new.
      snd (InitGlobalTracer jg service h) = h @ new
    \<and> installed new = [(c', service, opts)]
    \<and> fst (InitGlobalTracer jg service h) = Returns (cfgInitGlobalTracer jg c' service opts)
    \<and> c' = c\<lparr>Sampler := Some \<lparr>Type = SamplerTypeConst, Param = 1\<rparr>,
              Reporter := Some (rc\<lparr>LogSpans := True\<rparr>)\<rparr>
    \<and> opts = [Logger StdLogger, Metrics NullFactory,
               Injector HTTPHeaders NewZipkinB3HTTPHeaderPropagator,
               Extractor HTTPHeaders NewZipkinB3HTTPHeaderPropagator,
               ZipkinSharedRPCSpan True]"
proof -
  let ?c' = "c\<lparr>Sampler := Some \<lparr>Type = SamplerTypeConst, Param = 1\<rparr>,
              Reporter := Some (rc\<lparr>LogSpans := True\<rparr>)\<rparr>"
  let ?opts = "[Logger StdLogger, Metrics NullFactory,
               Injector HTTPHeaders NewZipkinB3HTTPHeaderPropagator,
               Extractor HTTPHeaders NewZipkinB3HTTPHeaderPropagator,
               ZipkinSharedRPCSpan True]"
  obtain closer err' where i: "cfgInitGlobalTracer jg ?c' service ?opts = (closer, err')"
    by (cases "cfgInitGlobalTracer jg ?c' service ?opts")
  let ?new = "[ConfigFromEnv, ConfigInitGlobalTracer ?c' service ?opts]
      @ (case err' of None \<Rightarrow> []
         | Some x \<Rightarrow> [LogPrintf ''Could not initialize jaeger tracer: %s'' [Str (message x)] :: 'b call])"
  have 1: "snd (InitGlobalTracer jg service h) = h @ ?new"
    using assms i by (simp add: InitGlobalTracer_def Let_def split: option.splits)
  have 2: "installed ?new = [(?c', service, ?opts)]"
    by (simp split: option.splits)
  have 3: "fst (InitGlobalTracer jg service h :: _ \<times> 'b call list) = Returns (cfgInitGlobalTracer jg ?c' service ?opts)"
    using assms i by (simp add: InitGlobalTracer_def Let_def split: option.splits)
  from 1 2 3 show ?thesis by blast
qed

theorem InitGlobalTracer_overrides_witness:
  "FromEnv workingEnv = (Some loadedConfiguration, None)
   \<and> Reporter loadedConfiguration
       = Some \<lparr>QueueSize = 0, LogSpans = False, LocalAgentHostPort = ''localhost:6831''\<rparr>
   \<and> InitGlobalTracer workingEnv ''api'' ([] :: nat call list) =
       (Returns (Some (), None),
        [ConfigFromEnv,
         ConfigInitGlobalTracer
           \<lparr>ServiceName = [], Disabled = False, RPCMetrics = False,
            Sampler = Some \<lparr>Type = SamplerTypeConst, Param = 1\<rparr>,
            Reporter = Some \<lparr>QueueSize = 0, LogSpans = True, LocalAgentHostPort = ''localhost:6831''\<rparr>\<rparr>
           ''api''
           [Logger StdLogger, Metrics NullFactory,
            Injector HTTPHeaders NewZipkinB3HTTPHeaderPropagator,
            Extractor HTTPHeaders NewZipkinB3HTTPHeaderPropagator,
            ZipkinSharedRPCSpan True]])"
proof -
  have p: "FromEnv workingEnv = (Some loadedConfiguration, None)"
    by (simp add: workingEnv_def)
  have q: "Reporter loadedConfiguration
       = Some \<lparr>QueueSize = 0, LogSpans = False, LocalAgentHostPort = ''localhost:6831''\<rparr>"
    by (simp add: loadedConfiguration_def)
  from InitGlobalTracer_overrides [OF p q, of "''api''" "[] :: nat call list"]
  have "snd (InitGlobalTracer workingEnv ''api'' ([] :: nat call list)) =
        [ConfigFromEnv,
         ConfigInitGlobalTracer
           \<lparr>ServiceName = [], Disabled = False, RPCMetrics = False,
            Sampler = Some \<lparr>Type = SamplerTypeConst, Param = 1\<rparr>,
            Reporter = Some \<lparr>QueueSize = 0, LogSpans = True, LocalAgentHostPort = ''localhost:6831''\<rparr>\<rparr>
           ''api''
           [Logger StdLogger, Metrics NullFactory,
            Injector HTTPHeaders NewZipkinB3HTTPHeaderPropagator,
            Extractor HTTPHeaders NewZipkinB3HTTPHeaderPropagator,
            ZipkinSharedRPCSpan True]]
     \<and> fst (InitGlobalTracer workingEnv ''api'' ([] :: nat call list)) = Returns (Some (), None)"
    by (simp add: InitGlobalTracer_def Let_def workingEnv_def loadedConfiguration_def)
  with p q show ?thesis
    by (simp add: prod_eq_iff)
qed

text \<open>The error \<^verbatim>\<open>config.FromEnv()\<close> returns is never read: the function does the same
  with and without it.\<close>

lemma InitGlobalTracer_ignores_FromEnv_error:
  "InitGlobalTracer (jg\<lparr>FromEnv := (cfg, Some e)\<rparr>) service h =
   InitGlobalTracer (jg\<lparr>FromEnv := (cfg, None)\<rparr>) service h"
  by (simp add: InitGlobalTracer_def Let_def split: option.splits prod.splits)

text \<open>
  C3. When loading the configuration from the environment fails, the error should be
  logged and returned. In an environment where \<^verbatim>\<open>config.FromEnv()\<close> returns no
  configuration and an error, \<open>InitGlobalTracer\<close> instead panics on the assignment to
  \<^verbatim>\<open>cfg.Sampler\<close>: nothing is logged and nothing is returned.
\<close>

theorem InitGlobalTracer_config_load_failure:
  "InitGlobalTracer brokenEnv ''api'' ([] :: nat call list)
     = (Panics NilPointerDereference, [ConfigFromEnv])"
  by (simp add: InitGlobalTracer_def brokenEnv_def)

subsection \<open>Scenarios\<close>

text \<open>An outbound POST to \<open>/payments/charge\<close>.\<close>

lemma InjectHeaders_payments:
  "InjectHeaders exampleTracer paymentsRequest [] =
     (paymentsRequest\<lparr>Header := [''X-B3-Traceid'' \<mapsto> [''1'']]\<rparr>,
      [TracerStartSpan ''/payments/charge'' [],
       LogPrintf ''INFO: span.Context is %v'' [Ctx 1],
       SpanSetTag 0 SpanKindRPCClient,
       SpanSetTag 0 (HTTPUrl ''/payments/charge''),
       SpanSetTag 0 (HTTPMethod ''POST''),
       TracerInject 1 HTTPHeaders Map.empty,
       SpanFinish 0])"
  by (simp add: InjectHeaders_def exampleTracer_def paymentsRequest_def)

text \<open>The same call made while a server span with parent 7 is open, on a request whose
  headers already carry a context.\<close>

lemma InjectHeaders_inside_server_span:
  "started (snd (InjectHeaders exampleTracer
      (paymentsRequest\<lparr>Header := [''X-B3-Traceid'' \<mapsto> [''1111111'']]\<rparr>)
      [TracerStartSpan ''/orders/42'' [RPCServerOption (Some 7)]]))
   = [(''/orders/42'', [RPCServerOption (Some 7)]), (''/payments/charge'', [])]"
  by (simp add: InjectHeaders_def exampleTracer_def paymentsRequest_def)

text \<open>A round trip through the counting transport.\<close>

lemma RoundTrip_payments:
  "RoundTrip exampleTracer countingTransport 0 paymentsRequest [] =
     ((Returns (Some ''response'', None), 1,
       paymentsRequest\<lparr>Header := [''X-B3-Traceid'' \<mapsto> [''11'']]\<rparr>),
      [LogPrint ''INFO: TracingRoundTripper.RountTrip injecting headers'',
       TracerStartSpan ''/payments/charge'' [],
       LogPrintf ''INFO: span.Context is %v'' [Ctx 2],
       SpanSetTag 1 SpanKindRPCClient,
       SpanSetTag 1 (HTTPUrl ''/payments/charge''),
       SpanSetTag 1 (HTTPMethod ''POST''),
       TracerInject 2 HTTPHeaders Map.empty,
       SpanFinish 1,
       ProxiedRoundTrip (paymentsRequest\<lparr>Header := [''X-B3-Traceid'' \<mapsto> [''11'']]\<rparr>)])"
  by (simp add: RoundTrip_def InjectHeaders_def exampleTracer_def paymentsRequest_def
      countingTransport_def)

end
